theory Spec2Isabelle
  imports Main
begin

section \<open>Values, options and transferables\<close>

text \<open>
  The development follows \<^verbatim>\<open>src/module/transferable.cc\<close>. The v8 values the file
  inspects are modelled by the distinctions the code makes on them: the primitives,
  error objects, promises (\<^verbatim>\<open>IsPromise\<close>, with their \<^verbatim>\<open>State()\<close> and \<^verbatim>\<open>Result()\<close>),
  objects that wrap a \<^verbatim>\<open>TransferableHandle\<close>, and every other object.
\<close>

datatype PromiseState = kPending | kFulfilled | kRejected

datatype js_value =
    Undefined
  | Null
  | Boolean bool
  | Number int
  | String string
  | ErrorObject string
  | PromiseObject PromiseState js_value
  | TransferableHandleObject nat
  | PlainObject nat

text \<open>\<^verbatim>\<open>Options::Type\<close> and \<^verbatim>\<open>Transferable::Options\<close> (\<^verbatim>\<open>detail::TransferableOptions\<close>).\<close>

datatype Type = Type_None | Type_Copy | Type_ExternalCopy | Type_Reference

record Options =
  type :: Type
  fallback :: Type
  promise :: bool

text \<open>The C++ exceptions the file throws, and the error kinds of an \<^verbatim>\<open>ExternalCopyError\<close>.\<close>

datatype error = RuntimeTypeError string | RuntimeRangeError string | RuntimeGenericError string

datatype ErrorType = Error | TypeError | RangeError

text \<open>
  An \<^verbatim>\<open>ExternalCopy\<close> is the realm-independent copy of a value (\<open>Copied v\<close>), or an
  \<^verbatim>\<open>ExternalCopyError\<close> with its kind and message.
\<close>

datatype ExternalCopy = Copied js_value | ExternalCopyError ErrorType string

text \<open>
  \<^verbatim>\<open>RemoteHandle<Promise::Resolver>\<close>: a resolver of a destination isolate, with the
  isolate that \<^verbatim>\<open>GetIsolateHolder()\<close> returns.
\<close>

record RemoteHandle =
  isolate_holder :: nat
  resolver_id :: nat

text \<open>
  The transferables of the file: an \<^verbatim>\<open>ExternalCopy\<close> (itself a \<^verbatim>\<open>Transferable\<close>), an
  \<^verbatim>\<open>ExternalCopyHandle::ExternalCopyTransferable\<close>, a \<^verbatim>\<open>ReferenceHandleTransferable\<close>,
  what a \<^verbatim>\<open>TransferableHandle\<close> transfers itself as, and the \<^verbatim>\<open>TransferablePromise\<close>
  with the \<^verbatim>\<open>TransferablePromiseStateStruct\<close> its \<^verbatim>\<open>state\<close> points to. The struct is
  carried as the constructor leaves it; every later operation of the bridge is a function
  from the shared struct (held under its lock) to its successor. The field \<^verbatim>\<open>value\<close> is
  \<open>val\<close> here: \<open>None\<close> is the null pointer.
\<close>

datatype Transferable =
    ExternalCopyOf ExternalCopy
  | ExternalCopyTransferable ExternalCopy
  | ReferenceHandleTransferable js_value
  | HandleTransferable nat
  | TransferablePromise TransferablePromiseStateStruct
and TransferablePromiseStateStruct =
    TransferablePromiseStateStruct
      (val: "Transferable option")
      (waiting: "RemoteHandle list")
      (did_throw: bool)
      (resolved: bool)

text \<open>\<^verbatim>\<open>std::make_shared<TransferablePromiseState>()\<close>: the member initialisers.\<close>

definition new_state :: TransferablePromiseStateStruct where
  "new_state = TransferablePromiseStateStruct None [] False False"

text \<open>\<^verbatim>\<open>TransferablePromiseHolder\<close>; its \<^verbatim>\<open>state\<close> is the struct passed to its methods.\<close>

record TransferablePromiseHolder =
  transfer_options :: Options

text \<open>\<^verbatim>\<open>ResolveTask\<close>, and what running one does to its resolver.\<close>

record ResolveTask =
  task_resolver :: RemoteHandle
  task_value :: "Transferable option"
  task_did_throw :: bool

datatype settlement =
    Resolve RemoteHandle "Transferable option"
  | Reject RemoteHandle "Transferable option"

subsection \<open>Collaborators outside the file\<close>

text \<open>
  Modelled from the spec: \<^verbatim>\<open>ExternalCopy::Copy\<close> (external_copy.cc), the deep-copy codec's
  \<^verbatim>\<open>copy(value) -> Transferable\<close>.
\<close>

definition Copy :: "js_value \<Rightarrow> ExternalCopy" where
  "Copy v = Copied v"

text \<open>
  Modelled from the spec: \<^verbatim>\<open>ExternalCopy::CopyIfPrimitive\<close> (external_copy.cc),
  \<^verbatim>\<open>copyIfPrimitive(value) -> optional Transferable\<close>, the cheap fast path of the
  dispatch: a realm-independent primitive (boolean, number, string, null/undefined, or a
  structurally-copyable error) is copied. A plain object does not qualify (transferring
  one with no kind and no fallback yields nothing), nor does a promise or an object that
  wraps a handle.
\<close>

fun CopyIfPrimitive :: "js_value \<Rightarrow> ExternalCopy option" where
  "CopyIfPrimitive Undefined = Some (Copied Undefined)"
| "CopyIfPrimitive Null = Some (Copied Null)"
| "CopyIfPrimitive (Boolean b) = Some (Copied (Boolean b))"
| "CopyIfPrimitive (Number n) = Some (Copied (Number n))"
| "CopyIfPrimitive (String s) = Some (Copied (String s))"
| "CopyIfPrimitive (ErrorObject m) = Some (ExternalCopyError Error m)"
| "CopyIfPrimitive (PromiseObject _ _) = None"
| "CopyIfPrimitive (TransferableHandleObject _) = None"
| "CopyIfPrimitive (PlainObject _) = None"

text \<open>
  Modelled from the spec: \<^verbatim>\<open>ExternalCopy::CopyIfPrimitiveOrError\<close> (external_copy.cc),
  \<^verbatim>\<open>copyIfPrimitiveOrError(value) -> Transferable\<close>, which always succeeds: an error
  object is copied as an error, a primitive as \<^verbatim>\<open>copyIfPrimitive\<close> does, and any other
  value is normalised to an error marker.
\<close>

definition CopyIfPrimitiveOrError :: "js_value \<Rightarrow> ExternalCopy" where
  "CopyIfPrimitiveOrError v =
     (case v of
        ErrorObject m \<Rightarrow> ExternalCopyError Error m
      | _ \<Rightarrow> (case CopyIfPrimitive v of
                Some c \<Rightarrow> c
              | None \<Rightarrow> ExternalCopyError Error ''''))"

text \<open>\<^verbatim>\<open>value->IsObject()\<close> and \<^verbatim>\<open>value->IsPromise()\<close> of v8.\<close>

fun IsObject :: "js_value \<Rightarrow> bool" where
  "IsObject (ErrorObject _) = True"
| "IsObject (PromiseObject _ _) = True"
| "IsObject (TransferableHandleObject _) = True"
| "IsObject (PlainObject _) = True"
| "IsObject _ = False"

fun IsPromise :: "js_value \<Rightarrow> bool" where
  "IsPromise (PromiseObject _ _) = True"
| "IsPromise _ = False"

text \<open>
  Modelled from the spec: \<^verbatim>\<open>ClassHandle::Unwrap<TransferableHandle>\<close> (class_handle.h) and
  the handle's virtual \<^verbatim>\<open>TransferOut()\<close> (transferable_handle.h), the native transfer
  capability \<^verbatim>\<open>selfTransferOut() -> Transferable\<close>. \<open>Unwrap\<close> is the handle an object
  wraps, \<open>None\<close> for \<^verbatim>\<open>nullptr\<close>.
\<close>

fun Unwrap :: "js_value \<Rightarrow> nat option" where
  "Unwrap (TransferableHandleObject h) = Some h"
| "Unwrap _ = None"

definition Handle_TransferOut :: "nat \<Rightarrow> Transferable option" where
  "Handle_TransferOut h = Some (HandleTransferable h)"

text \<open>
  Modelled from the spec: \<^verbatim>\<open>FunctorRunners::RunCatchExternal\<close> (isolate/functor_runners.h).
  It runs its first argument; if that fails, the failure is captured as a
  structurally-copyable error value and handed to the second argument.
\<close>

fun CopyCaught :: "error \<Rightarrow> ExternalCopy" where
  "CopyCaught (RuntimeTypeError m) = ExternalCopyError TypeError m"
| "CopyCaught (RuntimeRangeError m) = ExternalCopyError RangeError m"
| "CopyCaught (RuntimeGenericError m) = ExternalCopyError Error m"

definition RunCatchExternal :: "(unit \<Rightarrow> error + 'a) \<Rightarrow> (ExternalCopy \<Rightarrow> 'a) \<Rightarrow> 'a" where
  "RunCatchExternal fn1 fn2 =
     (case fn1 () of
        Inr r \<Rightarrow> r
      | Inl e \<Rightarrow> fn2 (CopyCaught e))"

section \<open>The promise bridge\<close>

text \<open>
  \<^verbatim>\<open>TransferablePromiseHolder::Save\<close>. \<open>lock\<close> is the struct behind \<^verbatim>\<open>state->write()\<close>;
  the result is the struct when the lock is released, and the tasks handed to
  \<^verbatim>\<open>ScheduleTask\<close>, each with the isolate it is scheduled on, in the order of the loop.
  The two lambdas given to \<^verbatim>\<open>RunCatchExternal\<close> write the struct and the local
  \<^verbatim>\<open>did_throw\<close>, so they return both.
\<close>

definition Save ::
  "bool \<Rightarrow> (unit \<Rightarrow> error + Transferable) \<Rightarrow> TransferablePromiseStateStruct
     \<Rightarrow> TransferablePromiseStateStruct \<times> (nat \<times> ResolveTask) list" where
  "Save did_throw_arg callback lock =
     (let (lock1, did_throw1) =
            (if \<not> resolved lock then
               RunCatchExternal
                 (\<lambda>_. case callback () of
                         Inl e \<Rightarrow> Inl e
                       | Inr v \<Rightarrow>
                           Inr (TransferablePromiseStateStruct
                                  (Some v) (waiting lock) did_throw_arg True, did_throw_arg))
                 (\<lambda>error.
                    (TransferablePromiseStateStruct
                       (Some (ExternalCopyOf error)) (waiting lock) True True, True))
             else (lock, did_throw_arg));
          resolved_value = val lock1;
          pending_tasks = waiting lock1
      in (TransferablePromiseStateStruct
            (val lock1) [] (did_throw lock1) (resolved lock1),
          map (\<lambda>resolver.
                 (isolate_holder resolver,
                  \<lparr>task_resolver = resolver, task_value = resolved_value,
                   task_did_throw = did_throw1\<rparr>))
              pending_tasks))"

text \<open>\<^verbatim>\<open>~TransferablePromiseHolder\<close>.\<close>

definition Destroy ::
  "TransferablePromiseHolder \<Rightarrow> TransferablePromiseStateStruct
     \<Rightarrow> TransferablePromiseStateStruct \<times> (nat \<times> ResolveTask) list" where
  "Destroy that lock =
     Save True
       (\<lambda>_. Inr (ExternalCopyOf (ExternalCopyError Error ''Promise was abandoned''))) lock"

text \<open>\<^verbatim>\<open>TransferablePromiseHolder::Rejected\<close>.\<close>

definition Rejected ::
  "TransferablePromiseHolder \<Rightarrow> js_value \<Rightarrow> TransferablePromiseStateStruct
     \<Rightarrow> TransferablePromiseStateStruct \<times> (nat \<times> ResolveTask) list" where
  "Rejected that v lock =
     Save True (\<lambda>_. Inr (ExternalCopyOf (CopyIfPrimitiveOrError v))) lock"

text \<open>\<^verbatim>\<open>ResolveTask::Run\<close>, with the transferable it materialises for the resolver.\<close>

definition Run :: "ResolveTask \<Rightarrow> settlement" where
  "Run task =
     (if task_did_throw task then Reject (task_resolver task) (task_value task)
      else Resolve (task_resolver task) (task_value task))"

text \<open>
  \<^verbatim>\<open>TransferablePromise::TransferIn\<close>, for the resolver \<^verbatim>\<open>Promise::Resolver::New\<close> made:
  the struct afterwards, and what was done to the resolver at once, if anything.
\<close>

definition TransferIn ::
  "RemoteHandle \<Rightarrow> TransferablePromiseStateStruct
     \<Rightarrow> TransferablePromiseStateStruct \<times> settlement option" where
  "TransferIn resolver lock =
     (if resolved lock then
        (if did_throw lock then (lock, Some (Reject resolver (val lock)))
         else (lock, Some (Resolve resolver (val lock))))
      else
        (TransferablePromiseStateStruct
           (val lock) (waiting lock @ [resolver]) (did_throw lock) (resolved lock),
         None))"

text \<open>\<^verbatim>\<open>TransferablePromise::MakeHolder\<close>.\<close>

definition MakeHolder :: "Options \<Rightarrow> TransferablePromiseHolder" where
  "MakeHolder transfer_options_arg =
     \<lparr>transfer_options = transfer_options_arg\<lparr>promise := False\<rparr>\<rparr>"

section \<open>Transfer dispatch\<close>

text \<open>The lambda \<^verbatim>\<open>TransferWithType\<close> of \<^verbatim>\<open>Transferable::OptionalTransferOut\<close>.\<close>

definition TransferWithType :: "js_value \<Rightarrow> Type \<Rightarrow> Transferable option" where
  "TransferWithType v ty =
     (case ty of
        Type_Copy \<Rightarrow> Some (ExternalCopyOf (Copy v))
      | Type_ExternalCopy \<Rightarrow> Some (ExternalCopyTransferable (Copy v))
      | Type_Reference \<Rightarrow> Some (ReferenceHandleTransferable v)
      | _ \<Rightarrow> None)"

text \<open>
  \<^verbatim>\<open>Transferable::OptionalTransferOut\<close> and \<^verbatim>\<open>Transferable::TransferOut\<close>, with the code
  they reach when \<^verbatim>\<open>options.promise\<close> is set: the two constructors of
  \<^verbatim>\<open>TransferablePromise\<close> (each returns the struct of the new object),
  \<^verbatim>\<open>TransferablePromiseHolder::Accept\<close> (for the \<^verbatim>\<open>State()\<close> and \<^verbatim>\<open>Result()\<close> of its
  promise; the flag says that the \<^verbatim>\<open>Then\<close> and \<^verbatim>\<open>Catch\<close> continuations were installed)
  and \<^verbatim>\<open>TransferablePromiseHolder::Resolved\<close>, which transfers the settled value out
  again under the holder's options. \<open>None\<close> is \<^verbatim>\<open>nullptr\<close>; the case on
  \<open>PromiseObject\<close> is \<^verbatim>\<open>value->IsPromise()\<close> with \<^verbatim>\<open>value.As<Promise>()\<close>.
\<close>

function OptionalTransferOut :: "js_value \<Rightarrow> Options \<Rightarrow> Transferable option"
  and TransferOut :: "js_value \<Rightarrow> Options \<Rightarrow> error + Transferable"
  and Resolved ::
    "TransferablePromiseHolder \<Rightarrow> js_value \<Rightarrow> TransferablePromiseStateStruct
       \<Rightarrow> TransferablePromiseStateStruct \<times> (nat \<times> ResolveTask) list"
  and Accept ::
    "TransferablePromiseHolder \<Rightarrow> PromiseState \<Rightarrow> js_value \<Rightarrow> TransferablePromiseStateStruct
       \<Rightarrow> TransferablePromiseStateStruct \<times> (nat \<times> ResolveTask) list \<times> bool"
  and TransferablePromise_of_promise ::
    "PromiseState \<Rightarrow> js_value \<Rightarrow> Options \<Rightarrow> TransferablePromiseStateStruct"
  and TransferablePromise_of_value ::
    "js_value \<Rightarrow> Options \<Rightarrow> TransferablePromiseStateStruct"
where
  "OptionalTransferOut v options =
     (if promise options then
        (case v of
           PromiseObject state result \<Rightarrow>
             Some (TransferablePromise (TransferablePromise_of_promise state result options))
         | _ \<Rightarrow> Some (TransferablePromise (TransferablePromise_of_value v options)))
      else
        (case type options of
           Type_None \<Rightarrow>
             (case (if IsObject v then Unwrap v else None) of
                Some ptr \<Rightarrow> Handle_TransferOut ptr
              | None \<Rightarrow>
                  (case CopyIfPrimitive v of
                     Some result \<Rightarrow> Some (ExternalCopyOf result)
                   | None \<Rightarrow> TransferWithType v (fallback options)))
         | _ \<Rightarrow> TransferWithType v (type options)))"
| "TransferOut v options =
     (case OptionalTransferOut v options of
        None \<Rightarrow> Inl (RuntimeTypeError ''A non-transferable value was passed'')
      | Some copy \<Rightarrow> Inr copy)"
| "Resolved that v lock =
     Save False (\<lambda>_. TransferOut v (transfer_options that)) lock"
| "Accept that state result lock =
     (if state = kPending then (lock, [], True)
      else if state = kFulfilled then
        (let (lock1, tasks) = Resolved that result lock in (lock1, tasks, False))
      else
        (let (lock1, tasks) = Rejected that result lock in (lock1, tasks, False)))"
| "TransferablePromise_of_promise state result transfer_options_arg =
     fst (Accept (MakeHolder transfer_options_arg) state result new_state)"
| "TransferablePromise_of_value v transfer_options_arg =
     fst (Resolved (MakeHolder transfer_options_arg) v new_state)"
  by pat_completeness auto
termination
  by (relation "measure (\<lambda>x. case x of
        Inl (Inl (v, options)) \<Rightarrow> (if promise options then 6 else 1)
      | Inl (Inr (Inl (v, options))) \<Rightarrow> (if promise options then 7 else 2)
      | Inl (Inr (Inr (that, v, lock))) \<Rightarrow>
          (if promise (transfer_options that) then 8 else 3)
      | Inr (Inl (that, state, result, lock)) \<Rightarrow>
          (if promise (transfer_options that) then 9 else 4)
      | Inr (Inr (Inl (state, result, options))) \<Rightarrow> 5
      | Inr (Inr (Inr (v, options))) \<Rightarrow> 5)")
    (auto simp: MakeHolder_def)

section \<open>Option parsing\<close>

text \<open>
  Modelled from the spec: \<^verbatim>\<open>ReadOption<bool>\<close> (isolate/util.h), which reads a boolean
  flag of the options bag, and the default when the bag does not have it. The bag is
  the map from its property names to their flags.
\<close>

definition ReadOption :: "(string \<rightharpoonup> bool) \<Rightarrow> string \<Rightarrow> bool \<Rightarrow> bool" where
  "ReadOption options property default_value =
     (case options property of None \<Rightarrow> default_value | Some b \<Rightarrow> b)"

text \<open>\<^verbatim>\<open>TransferableOptions::ParseOptions\<close>, on the object \<open>this\<close> it writes.\<close>

definition ParseOptions :: "(string \<rightharpoonup> bool) \<Rightarrow> Options \<Rightarrow> error + Options" where
  "ParseOptions options this =
     (let copy = ReadOption options ''copy'' False;
          externalCopy = ReadOption options ''externalCopy'' False;
          reference = ReadOption options ''reference'' False
      in if (copy \<and> externalCopy) \<or> (copy \<and> reference) \<or> (externalCopy \<and> reference) then
           Inl (RuntimeTypeError
                  ''Only one of `copy`, `externalCopy`, or `reference` may be set'')
         else
           Inr ((if copy then this\<lparr>type := Type_Copy\<rparr>
                 else if externalCopy then this\<lparr>type := Type_ExternalCopy\<rparr>
                 else if reference then this\<lparr>type := Type_Reference\<rparr>
                 else this)\<lparr>promise := ReadOption options ''promise'' False\<rparr>))"

text \<open>
  The two constructors of \<^verbatim>\<open>TransferableOptions\<close>. Modelled from the spec: the member
  initialisers of \<^verbatim>\<open>type\<close> and \<^verbatim>\<open>promise\<close> (transferable.h), kind unset and no promise.
\<close>

definition TransferableOptions :: "(string \<rightharpoonup> bool) \<Rightarrow> Type \<Rightarrow> error + Options" where
  "TransferableOptions options fallback_arg =
     ParseOptions options \<lparr>type = Type_None, fallback = fallback_arg, promise = False\<rparr>"

definition TransferableOptions_maybe ::
  "(string \<rightharpoonup> bool) option \<Rightarrow> Type \<Rightarrow> error + Options" where
  "TransferableOptions_maybe maybe_options fallback_arg =
     (case maybe_options of
        Some options \<Rightarrow>
          ParseOptions options \<lparr>type = Type_None, fallback = fallback_arg, promise = False\<rparr>
      | None \<Rightarrow> Inr \<lparr>type = Type_None, fallback = fallback_arg, promise = False\<rparr>)"

section \<open>Runs of a bridge\<close>

text \<open>
  What can happen to one bridge, in any order: the fulfilment continuation
  (\<^verbatim>\<open>Resolved\<close>), the rejection continuation (\<^verbatim>\<open>Rejected\<close>), the destruction of the holder,
  and a destination materialising the promise with a new resolver (\<^verbatim>\<open>TransferIn\<close>).
  Each runs under the lock, so a run is a sequence of them.
\<close>

datatype event =
    Fulfil js_value
  | RejectWith js_value
  | Abandon
  | Materialize RemoteHandle

fun is_trigger :: "event \<Rightarrow> bool" where
  "is_trigger (Materialize _) = False"
| "is_trigger _ = True"

text \<open>The resolvers a run registers or settles at once, in the order of the run.\<close>

fun resolvers_of :: "event list \<Rightarrow> RemoteHandle list" where
  "resolvers_of [] = []"
| "resolvers_of (Materialize r # evs) = r # resolvers_of evs"
| "resolvers_of (_ # evs) = resolvers_of evs"

text \<open>
  One event on the struct: the struct afterwards and the settlements it causes, those of
  the scheduled tasks in the order they were scheduled.
\<close>

fun step :: "TransferablePromiseHolder \<Rightarrow> event \<Rightarrow> TransferablePromiseStateStruct
    \<Rightarrow> TransferablePromiseStateStruct \<times> settlement list" where
  "step that (Fulfil v) lock =
     (let (lock1, tasks) = Resolved that v lock in (lock1, map (\<lambda>t. Run (snd t)) tasks))"
| "step that (RejectWith v) lock =
     (let (lock1, tasks) = Rejected that v lock in (lock1, map (\<lambda>t. Run (snd t)) tasks))"
| "step that Abandon lock =
     (let (lock1, tasks) = Destroy that lock in (lock1, map (\<lambda>t. Run (snd t)) tasks))"
| "step that (Materialize r) lock =
     (let (lock1, now) = TransferIn r lock
      in (lock1, case now of None \<Rightarrow> [] | Some s \<Rightarrow> [s]))"

fun run :: "TransferablePromiseHolder \<Rightarrow> event list \<Rightarrow> TransferablePromiseStateStruct
    \<Rightarrow> TransferablePromiseStateStruct \<times> settlement list" where
  "run that [] lock = (lock, [])"
| "run that (ev # evs) lock =
     (let (lock1, ds1) = step that ev lock;
          (lock2, ds2) = run that evs lock1
      in (lock2, ds1 @ ds2))"

text \<open>The resolver a settlement is for, and the outcome it delivers.\<close>

fun settled_resolver :: "settlement \<Rightarrow> RemoteHandle" where
  "settled_resolver (Resolve r _) = r"
| "settled_resolver (Reject r _) = r"

fun outcome :: "settlement \<Rightarrow> bool \<times> Transferable option" where
  "outcome (Resolve _ t) = (False, t)"
| "outcome (Reject _ t) = (True, t)"

text \<open>
  The invariant of the struct: once it is resolved nobody waits on it (\<^verbatim>\<open>Save\<close> drains
  the queue when it resolves, and \<^verbatim>\<open>TransferIn\<close> queues a resolver only before that).
\<close>

definition settled_ok :: "TransferablePromiseStateStruct \<Rightarrow> bool" where
  "settled_ok lock = (if resolved lock then waiting lock = [] else True)"

section \<open>Properties\<close>

lemma new_state_sel:
  "val new_state = None" "waiting new_state = []"
  "did_throw new_state = False" "resolved new_state = False"
  by (simp_all add: new_state_def)

subsection \<open>The settlement procedure\<close>

lemma Save_resolved_state:
  "resolved lock \<Longrightarrow>
     Save d cb lock =
       (TransferablePromiseStateStruct (val lock) [] (did_throw lock) True,
        map (\<lambda>r. (isolate_holder r,
              \<lparr>task_resolver = r, task_value = val lock, task_did_throw = d\<rparr>)) (waiting lock))"
  by (simp add: Save_def)

lemma Save_unresolved_ok:
  "\<not> resolved lock \<Longrightarrow> cb () = Inr t \<Longrightarrow>
     Save d cb lock =
       (TransferablePromiseStateStruct (Some t) [] d True,
        map (\<lambda>r. (isolate_holder r,
              \<lparr>task_resolver = r, task_value = Some t, task_did_throw = d\<rparr>)) (waiting lock))"
  by (simp add: Save_def RunCatchExternal_def)

lemma Save_unresolved_fail:
  "\<not> resolved lock \<Longrightarrow> cb () = Inl e \<Longrightarrow>
     Save d cb lock =
       (TransferablePromiseStateStruct (Some (ExternalCopyOf (CopyCaught e))) [] True True,
        map (\<lambda>r. (isolate_holder r,
              \<lparr>task_resolver = r, task_value = Some (ExternalCopyOf (CopyCaught e)),
               task_did_throw = True\<rparr>)) (waiting lock))"
  by (simp add: Save_def RunCatchExternal_def)

lemma Save_cases:
  "Save d cb lock =
     (if resolved lock then
        (TransferablePromiseStateStruct (val lock) [] (did_throw lock) True,
         map (\<lambda>r. (isolate_holder r,
              \<lparr>task_resolver = r, task_value = val lock, task_did_throw = d\<rparr>)) (waiting lock))
      else (case cb () of
         Inr t \<Rightarrow> (TransferablePromiseStateStruct (Some t) [] d True,
            map (\<lambda>r. (isolate_holder r,
              \<lparr>task_resolver = r, task_value = Some t, task_did_throw = d\<rparr>)) (waiting lock))
       | Inl e \<Rightarrow> (TransferablePromiseStateStruct (Some (ExternalCopyOf (CopyCaught e))) [] True True,
        map (\<lambda>r. (isolate_holder r,
              \<lparr>task_resolver = r, task_value = Some (ExternalCopyOf (CopyCaught e)),
               task_did_throw = True\<rparr>)) (waiting lock))))"
  by (simp add: Save_def RunCatchExternal_def split: sum.splits)

lemma step_trigger_Save:
  "is_trigger ev \<Longrightarrow> \<exists>d cb. step that ev lock = (fst (Save d cb lock), map (\<lambda>t. Run (snd t)) (snd (Save d cb lock)))"
  apply (cases ev)
     apply (auto simp: Destroy_def Rejected_def split: prod.splits)
    apply (metis fst_conv snd_conv)+
  done


lemma Run_resolver: "settled_resolver (Run t) = task_resolver t"
  by (simp add: Run_def)

lemma Run_outcome: "outcome (Run t) = (task_did_throw t, task_value t)"
  by (simp add: Run_def)

lemma Save_step_facts:
  fixes d cb lock
  assumes "settled_ok lock"
    and "lock1 = fst (Save d cb lock)"
    and "ds = map (\<lambda>t. Run (snd t)) (snd (Save d cb lock))"
  shows "map settled_resolver ds @ waiting lock1 = waiting lock"
    and "resolved lock1" and "waiting lock1 = []"
    and "resolved lock \<Longrightarrow> val lock1 = val lock \<and> did_throw lock1 = did_throw lock"
    and "\<forall>s \<in> set ds. outcome s = (did_throw lock1, val lock1)"
  using assms
  by (auto simp: Save_cases settled_ok_def Run_resolver Run_outcome o_def split: sum.splits)

lemma step_facts:
  assumes "settled_ok lock" and "step that ev lock = (lock1, ds)"
  shows "map settled_resolver ds @ waiting lock1 = waiting lock @ resolvers_of [ev]"
    and "settled_ok lock1"
    and "resolved lock \<longrightarrow> resolved lock1 \<and> val lock1 = val lock \<and> did_throw lock1 = did_throw lock"
    and "\<forall>s \<in> set ds. outcome s = (did_throw lock1, val lock1)"
    and "ds \<noteq> [] \<longrightarrow> resolved lock1"
    and "is_trigger ev \<longrightarrow> resolved lock1"
proof -
  have "(map settled_resolver ds @ waiting lock1 = waiting lock @ resolvers_of [ev])
    \<and> settled_ok lock1
    \<and> (resolved lock \<longrightarrow> resolved lock1 \<and> val lock1 = val lock \<and> did_throw lock1 = did_throw lock)
    \<and> (\<forall>s \<in> set ds. outcome s = (did_throw lock1, val lock1))
    \<and> (ds \<noteq> [] \<longrightarrow> resolved lock1)
    \<and> (is_trigger ev \<longrightarrow> resolved lock1)"
  proof (cases "is_trigger ev")
    case True
    then obtain d cb where s: "step that ev lock = (fst (Save d cb lock), map (\<lambda>t. Run (snd t)) (snd (Save d cb lock)))"
      using step_trigger_Save by blast
    with assms(2) have l: "lock1 = fst (Save d cb lock)" and d: "ds = map (\<lambda>t. Run (snd t)) (snd (Save d cb lock))"
      by simp_all
    have r: "resolvers_of [ev] = []" using True by (cases ev) simp_all
    note f = Save_step_facts[OF assms(1) l d]
    show ?thesis using f r by (simp add: settled_ok_def)
  next
    case False
    then obtain r where ev: "ev = Materialize r" by (cases ev) simp_all
    from assms show ?thesis
      unfolding ev by (auto simp: TransferIn_def settled_ok_def split: if_splits)
  qed
  then show "map settled_resolver ds @ waiting lock1 = waiting lock @ resolvers_of [ev]"
    and "settled_ok lock1"
    and "resolved lock \<longrightarrow> resolved lock1 \<and> val lock1 = val lock \<and> did_throw lock1 = did_throw lock"
    and "\<forall>s \<in> set ds. outcome s = (did_throw lock1, val lock1)"
    and "ds \<noteq> [] \<longrightarrow> resolved lock1"
    and "is_trigger ev \<longrightarrow> resolved lock1"
    by blast+
qed

lemma run_facts:
  assumes "settled_ok lock" and "run that evs lock = (final, ds)"
  shows "map settled_resolver ds @ waiting final = waiting lock @ resolvers_of evs
    \<and> settled_ok final
    \<and> (resolved lock \<longrightarrow> resolved final \<and> val final = val lock \<and> did_throw final = did_throw lock)
    \<and> (\<forall>s \<in> set ds. outcome s = (did_throw final, val final))
    \<and> (ds \<noteq> [] \<longrightarrow> resolved final)
    \<and> ((\<exists>ev \<in> set evs. is_trigger ev) \<longrightarrow> resolved final)"
  using assms
proof (induction evs arbitrary: lock final ds)
  case Nil
  then show ?case by auto
next
  case (Cons ev evs)
  obtain lock1 ds1 where s: "step that ev lock = (lock1, ds1)" by (cases "step that ev lock")
  obtain lock2 ds2 where r: "run that evs lock1 = (lock2, ds2)" by (cases "run that evs lock1")
  from Cons.prems(2) s r have e: "final = lock2" "ds = ds1 @ ds2" by simp_all
  note sf = step_facts[OF Cons.prems(1) s]
  note ih = Cons.IH[OF sf(2) r]
  have res: "resolvers_of (ev # evs) = resolvers_of [ev] @ resolvers_of evs"
    by (cases ev) simp_all
  have a: "map settled_resolver ds @ waiting final = waiting lock @ resolvers_of (ev # evs)"
  proof -
    have "map settled_resolver ds @ waiting final
        = map settled_resolver ds1 @ (map settled_resolver ds2 @ waiting lock2)"
      by (simp add: e)
    also have "\<dots> = map settled_resolver ds1 @ (waiting lock1 @ resolvers_of evs)"
      using ih by simp
    also have "\<dots> = waiting lock @ resolvers_of (ev # evs)"
      using sf(1) res by (metis append_assoc)
    finally show ?thesis .
  qed
  have b: "resolved lock1 \<Longrightarrow> resolved lock2 \<and> val lock2 = val lock1 \<and> did_throw lock2 = did_throw lock1"
    using ih by simp
  have c: "\<forall>s \<in> set ds. outcome s = (did_throw final, val final)"
  proof
    fix s assume "s \<in> set ds"
    then consider "s \<in> set ds1" | "s \<in> set ds2" by (auto simp: e)
    then show "outcome s = (did_throw final, val final)"
    proof cases
      case 1
      then have "ds1 \<noteq> []" by auto
      then have "resolved lock1" using sf(5) by simp
      with b 1 sf(4) show ?thesis by (simp add: e)
    next
      case 2
      then show ?thesis using ih by (simp add: e)
    qed
  qed
  have d: "ds \<noteq> [] \<longrightarrow> resolved final"
    using sf(5) b ih by (auto simp: e)
  have f: "(\<exists>ev' \<in> set (ev # evs). is_trigger ev') \<longrightarrow> resolved final"
    using sf(6) b ih by (auto simp: e)
  have g: "resolved lock \<longrightarrow> resolved final \<and> val final = val lock \<and> did_throw final = did_throw lock"
    using sf(3) b by (auto simp: e)
  from a c d f g ih show ?case by (simp add: e)
qed


lemma run_append:
  "run that (xs @ ys) lock =
     (let (lock1, ds1) = run that xs lock; (lock2, ds2) = run that ys lock1
      in (lock2, ds1 @ ds2))"
  by (induction xs arbitrary: lock) (simp_all split: prod.splits)

lemma run_no_trigger:
  "\<not> resolved lock \<Longrightarrow> \<forall>ev \<in> set evs. \<not> is_trigger ev \<Longrightarrow>
     run that evs lock =
       (TransferablePromiseStateStruct
          (val lock) (waiting lock @ resolvers_of evs) (did_throw lock) False, [])"
proof (induction evs arbitrary: lock)
  case Nil
  then show ?case by (cases lock) simp
next
  case (Cons ev evs)
  then obtain r where ev: "ev = Materialize r" by (cases ev) simp_all
  show ?case using Cons unfolding ev by (simp add: TransferIn_def)
qed

lemma settled_ok_new_state: "settled_ok new_state"
  by (simp add: settled_ok_def new_state_def)

lemma map_const_replicate:
  "\<forall>x \<in> set xs. f x = c \<Longrightarrow> map f xs = replicate (length xs) c"
  by (induction xs) simp_all

subsection \<open>Single settlement\<close>

lemma Save_writes:
  "\<not> resolved lock \<Longrightarrow>
     (did_throw (fst (Save d cb lock)), val (fst (Save d cb lock))) =
       (case cb () of
          Inr t \<Rightarrow> (d, Some t)
        | Inl e \<Rightarrow> (True, Some (ExternalCopyOf (CopyCaught e))))"
  by (simp add: Save_cases split: sum.splits)

lemma step_writes:
  assumes "\<not> resolved lock" and "is_trigger ev"
  shows "(did_throw (fst (step h ev lock)), val (fst (step h ev lock))) =
     (case ev of
        Fulfil v \<Rightarrow>
          (case TransferOut v (transfer_options h) of
             Inr t \<Rightarrow> (False, Some t)
           | Inl e \<Rightarrow> (True, Some (ExternalCopyOf (CopyCaught e))))
      | RejectWith v \<Rightarrow> (True, Some (ExternalCopyOf (CopyIfPrimitiveOrError v)))
      | Abandon \<Rightarrow>
          (True, Some (ExternalCopyOf (ExternalCopyError Error ''Promise was abandoned'')))
      | Materialize r \<Rightarrow> (did_throw lock, val lock))"
proof (cases ev)
  case (Fulfil v)
  show ?thesis
    unfolding Fulfil using Save_writes[OF assms(1), of False "\<lambda>_. TransferOut v (transfer_options h)"]
    by (simp add: case_prod_beta del: TransferOut.simps)
next
  case (RejectWith v)
  show ?thesis
    unfolding RejectWith
    using Save_writes[OF assms(1), of True "\<lambda>_. Inr (ExternalCopyOf (CopyIfPrimitiveOrError v))"]
    by (simp add: Rejected_def case_prod_beta)
next
  case Abandon
  show ?thesis
    unfolding Abandon
    using Save_writes[OF assms(1), of True
        "\<lambda>_. Inr (ExternalCopyOf (ExternalCopyError Error ''Promise was abandoned''))"]
    by (simp add: Destroy_def case_prod_beta)
next
  case (Materialize r)
  with assms(2) show ?thesis by simp
qed

lemma run_settled:
  assumes t: "\<exists>ev \<in> set evs. is_trigger ev"
  shows "let (mid, ds) = run h evs new_state;
             (final, ds') = run h (evs @ evs') new_state
         in resolved mid \<and> resolved final
            \<and> val final = val mid \<and> did_throw final = did_throw mid
            \<and> waiting final = []
            \<and> map settled_resolver ds' = resolvers_of (evs @ evs')
            \<and> map outcome ds' = replicate (length ds') (did_throw mid, val mid)"
proof -
  obtain mid ds where m: "run h evs new_state = (mid, ds)"
    by (cases "run h evs new_state")
  obtain final ds2 where f: "run h evs' mid = (final, ds2)"
    by (cases "run h evs' mid")
  have w: "run h (evs @ evs') new_state = (final, ds @ ds2)"
    by (simp add: run_append m f)
  note f1 = run_facts[OF settled_ok_new_state m]
  have rm: "resolved mid" using f1 t by blast
  have okm: "settled_ok mid" using f1 by blast
  note f2 = run_facts[OF okm f]
  have same: "resolved final" "val final = val mid" "did_throw final = did_throw mid"
    using f2 rm by blast+
  note f3 = run_facts[OF settled_ok_new_state w]
  have okf: "settled_ok final" using f2 by blast
  have wf: "waiting final = []" using okf same(1) by (simp add: settled_ok_def)
  have res: "map settled_resolver (ds @ ds2) = resolvers_of (evs @ evs')"
    using f3 wf by (simp add: new_state_sel)
  have "\<forall>s \<in> set (ds @ ds2). outcome s = (did_throw mid, val mid)"
    using f3 same by simp
  then have out: "map outcome (ds @ ds2) = replicate (length (ds @ ds2)) (did_throw mid, val mid)"
    by (rule map_const_replicate)
  show ?thesis
    using rm same wf res out by (simp add: m w)
qed

lemma run_first_trigger:
  assumes pre: "\<forall>ev \<in> set pre. \<not> is_trigger ev" and tr: "is_trigger trig"
  shows "let (final, ds) = run h (pre @ trig # post) new_state;
             written =
               (case trig of
                  Fulfil v \<Rightarrow>
                    (case TransferOut v (transfer_options h) of
                       Inr t \<Rightarrow> (False, Some t)
                     | Inl e \<Rightarrow> (True, Some (ExternalCopyOf (CopyCaught e))))
                | RejectWith v \<Rightarrow> (True, Some (ExternalCopyOf (CopyIfPrimitiveOrError v)))
                | Abandon \<Rightarrow>
                    (True,
                     Some (ExternalCopyOf (ExternalCopyError Error ''Promise was abandoned'')))
                | Materialize r \<Rightarrow> (False, None))
         in resolved final \<and> waiting final = []
            \<and> (did_throw final, val final) = written
            \<and> val final \<noteq> None
            \<and> map settled_resolver ds = resolvers_of (pre @ trig # post)
            \<and> map outcome ds = replicate (length ds) written"
proof -
  let ?s0 = "TransferablePromiseStateStruct None (resolvers_of pre) False False"
  have p: "run h pre new_state = (?s0, [])"
    using run_no_trigger[of new_state pre h] pre by (simp add: new_state_sel)
  have un: "\<not> resolved ?s0" by simp
  obtain mid ds where m: "run h (pre @ [trig]) new_state = (mid, ds)"
    by (cases "run h (pre @ [trig]) new_state")
  have mid: "mid = fst (step h trig ?s0)"
    using m by (simp add: run_append p split: prod.splits)
  let ?written = "case trig of
                  Fulfil v \<Rightarrow>
                    (case TransferOut v (transfer_options h) of
                       Inr t \<Rightarrow> (False, Some t)
                     | Inl e \<Rightarrow> (True, Some (ExternalCopyOf (CopyCaught e))))
                | RejectWith v \<Rightarrow> (True, Some (ExternalCopyOf (CopyIfPrimitiveOrError v)))
                | Abandon \<Rightarrow>
                    (True,
                     Some (ExternalCopyOf (ExternalCopyError Error ''Promise was abandoned'')))
                | Materialize r \<Rightarrow> (False, None)"
  have wr: "(did_throw mid, val mid) = ?written"
    unfolding mid using step_writes[OF un tr, of h] tr
    by (cases trig) (simp_all del: TransferOut.simps step.simps)
  have some: "snd ?written \<noteq> None"
    using tr by (cases trig) (simp_all split: sum.splits del: TransferOut.simps)
  have t: "\<exists>ev \<in> set (pre @ [trig]). is_trigger ev" using tr by simp
  obtain final ds' where f: "run h (pre @ trig # post) new_state = (final, ds')"
    by (cases "run h (pre @ trig # post) new_state")
  from run_settled[OF t, of h post] m f
  have s: "resolved final" "val final = val mid" "did_throw final = did_throw mid"
    "waiting final = []" "map settled_resolver ds' = resolvers_of (pre @ trig # post)"
    "map outcome ds' = replicate (length ds') (did_throw mid, val mid)"
    by simp_all
  have "val final \<noteq> None" using s(2) wr some by (metis snd_conv)
  then show ?thesis
    using s wr by (simp add: f Let_def del: TransferOut.simps)
qed

text \<open>
  C1. The bridge is settled exactly once. Every run of \<^verbatim>\<open>Save\<close> leaves the struct
  resolved; on a struct that is already resolved it leaves the stored value and the
  rejection flag as they are; on an unresolved struct it writes them: the transferable of
  the callback with the flag of the call, or the captured error with the flag true. For a
  bridge that starts fresh, as soon as a run of events contains a trigger (fulfilment,
  rejection or destruction of the holder, in any order and number) the struct is resolved,
  and whatever follows (\<open>evs'\<close>: more triggers, more destinations) the value and the flag
  stay what they were; nobody is left waiting; the settlements are for the resolvers of
  the run, each once, in their order; and each of them carries the one stored outcome.
  That outcome is the one the first trigger \<open>trig\<close> of the run writes, and no later one:
  for a fulfilment what \<^verbatim>\<open>TransferOut\<close> makes of the value under the holder's options (or
  the error it raises, as a rejection), for a rejection the copy of the reason, for the
  destruction of the holder the error "Promise was abandoned"; the stored value is never
  the null pointer. A run without a trigger settles nobody and queues its resolvers.
\<close>

theorem bridge_settled_once:
  "resolved (fst (Save d cb lock))
   \<and> (resolved lock \<longrightarrow>
        val (fst (Save d cb lock)) = val lock \<and> did_throw (fst (Save d cb lock)) = did_throw lock)
   \<and> (\<not> resolved lock \<longrightarrow>
        (did_throw (fst (Save d cb lock)), val (fst (Save d cb lock))) =
          (case cb () of
             Inr t \<Rightarrow> (d, Some t)
           | Inl e \<Rightarrow> (True, Some (ExternalCopyOf (CopyCaught e)))))
   \<and> ((\<exists>ev \<in> set evs. is_trigger ev) \<longrightarrow>
        (let (mid, ds) = run h evs new_state;
             (final, ds') = run h (evs @ evs') new_state
         in resolved mid \<and> resolved final
            \<and> val final = val mid \<and> did_throw final = did_throw mid
            \<and> waiting final = []
            \<and> map settled_resolver ds' = resolvers_of (evs @ evs')
            \<and> map outcome ds' = replicate (length ds') (did_throw mid, val mid)))
   \<and> ((\<forall>ev \<in> set pre. \<not> is_trigger ev) \<and> is_trigger trig \<longrightarrow>
        (let (final, ds) = run h (pre @ trig # post) new_state;
             written =
               (case trig of
                  Fulfil v \<Rightarrow>
                    (case TransferOut v (transfer_options h) of
                       Inr t \<Rightarrow> (False, Some t)
                     | Inl e \<Rightarrow> (True, Some (ExternalCopyOf (CopyCaught e))))
                | RejectWith v \<Rightarrow> (True, Some (ExternalCopyOf (CopyIfPrimitiveOrError v)))
                | Abandon \<Rightarrow>
                    (True,
                     Some (ExternalCopyOf (ExternalCopyError Error ''Promise was abandoned'')))
                | Materialize r \<Rightarrow> (False, None))
         in resolved final \<and> waiting final = []
            \<and> (did_throw final, val final) = written
            \<and> val final \<noteq> None
            \<and> map settled_resolver ds = resolvers_of (pre @ trig # post)
            \<and> map outcome ds = replicate (length ds) written))
   \<and> ((\<forall>ev \<in> set evs. \<not> is_trigger ev) \<longrightarrow>
        run h evs new_state =
          (TransferablePromiseStateStruct None (resolvers_of evs) False False, []))"
proof -
  have a: "resolved (fst (Save d cb lock))"
    by (simp add: Save_cases split: sum.splits)
  have b: "resolved lock \<longrightarrow>
        val (fst (Save d cb lock)) = val lock \<and> did_throw (fst (Save d cb lock)) = did_throw lock"
    by (simp add: Save_cases)
  have c: "(\<forall>ev \<in> set evs. \<not> is_trigger ev) \<longrightarrow>
        run h evs new_state =
          (TransferablePromiseStateStruct None (resolvers_of evs) False False, [])"
    using run_no_trigger[of new_state evs h] by (simp add: new_state_sel)
  note w = Save_writes[of lock d cb]
  note e = run_settled[of evs h evs']
  note f = run_first_trigger[of pre trig h post]
  from a b c w e f show ?thesis by blast
qed

theorem bridge_settled_once_witness:
  "is_trigger (Fulfil (Number 7))
   \<and> run (MakeHolder \<lparr>type = Type_Copy, fallback = Type_None, promise = True\<rparr>)
         ([Materialize \<lparr>isolate_holder = 1, resolver_id = 10\<rparr>, Fulfil (Number 7), Abandon]
          @ [Materialize \<lparr>isolate_holder = 2, resolver_id = 20\<rparr>, RejectWith (String ''late'')])
         new_state =
       (TransferablePromiseStateStruct (Some (ExternalCopyOf (Copied (Number 7)))) [] False True,
        [Resolve \<lparr>isolate_holder = 1, resolver_id = 10\<rparr> (Some (ExternalCopyOf (Copied (Number 7)))),
         Resolve \<lparr>isolate_holder = 2, resolver_id = 20\<rparr> (Some (ExternalCopyOf (Copied (Number 7))))])
   \<and> run (MakeHolder \<lparr>type = Type_Copy, fallback = Type_None, promise = True\<rparr>)
         ([Materialize \<lparr>isolate_holder = 1, resolver_id = 10\<rparr>] @ Abandon # [Fulfil (Number 7), Materialize \<lparr>isolate_holder = 2, resolver_id = 20\<rparr>])
         new_state =
       (TransferablePromiseStateStruct (Some (ExternalCopyOf (ExternalCopyError Error ''Promise was abandoned''))) [] True True,
        [Reject \<lparr>isolate_holder = 1, resolver_id = 10\<rparr> (Some (ExternalCopyOf (ExternalCopyError Error ''Promise was abandoned''))),
         Reject \<lparr>isolate_holder = 2, resolver_id = 20\<rparr> (Some (ExternalCopyOf (ExternalCopyError Error ''Promise was abandoned'')))])
   \<and> run (MakeHolder \<lparr>type = Type_Copy, fallback = Type_None, promise = True\<rparr>)
         [Materialize \<lparr>isolate_holder = 1, resolver_id = 10\<rparr>,
          Materialize \<lparr>isolate_holder = 2, resolver_id = 20\<rparr>] new_state =
       (TransferablePromiseStateStruct None
          [\<lparr>isolate_holder = 1, resolver_id = 10\<rparr>, \<lparr>isolate_holder = 2, resolver_id = 20\<rparr>]
          False False, [])
   \<and> fst (Save True (\<lambda>_. Inl (RuntimeGenericError ''late''))
            (TransferablePromiseStateStruct (Some (HandleTransferable 0)) [] False True)) =
       TransferablePromiseStateStruct (Some (HandleTransferable 0)) [] False True
   \<and> fst (Save False (\<lambda>_. Inl (RuntimeGenericError ''late''))
            (TransferablePromiseStateStruct None [] False False)) =
       TransferablePromiseStateStruct
         (Some (ExternalCopyOf (ExternalCopyError Error ''late''))) [] True True"
  using
    bridge_settled_once
      [where d = True and cb = "\<lambda>_. Inl (RuntimeGenericError ''late'')"
         and lock = "TransferablePromiseStateStruct (Some (HandleTransferable 0)) [] False True"
         and evs = "[Materialize \<lparr>isolate_holder = 1, resolver_id = 10\<rparr>, Fulfil (Number 7), Abandon]"
         and h = "MakeHolder \<lparr>type = Type_Copy, fallback = Type_None, promise = True\<rparr>"
         and evs' = "[Materialize \<lparr>isolate_holder = 2, resolver_id = 20\<rparr>, RejectWith (String ''late'')]"
         and pre = "[Materialize \<lparr>isolate_holder = 1, resolver_id = 10\<rparr>]" and trig = Abandon
         and post = "[Fulfil (Number 7), Materialize \<lparr>isolate_holder = 2, resolver_id = 20\<rparr>]"]
    bridge_settled_once
      [where d = False and cb = "\<lambda>_. Inl (RuntimeGenericError ''late'')"
         and lock = "TransferablePromiseStateStruct None [] False False"
         and evs = "[Materialize \<lparr>isolate_holder = 1, resolver_id = 10\<rparr>,
            Materialize \<lparr>isolate_holder = 2, resolver_id = 20\<rparr>]"
         and h = "MakeHolder \<lparr>type = Type_Copy, fallback = Type_None, promise = True\<rparr>" and evs' = "[]"
         and pre = "[]" and trig = "Fulfil (Number 7)" and post = "[]"]
  by (simp add: new_state_def MakeHolder_def Save_def RunCatchExternal_def TransferIn_def
      Rejected_def Destroy_def Run_def TransferWithType_def Copy_def CopyIfPrimitiveOrError_def)

subsection \<open>Abandonment\<close>

text \<open>
  C2. When the holder is destroyed while the struct is unresolved, the destructor settles
  it as a rejection that carries the error "Promise was abandoned": the struct is resolved
  with the rejection flag set, the queue is empty, one rejecting task was scheduled for each
  resolver that waited (however many), each on its own isolate and with that error, and a
  destination that materialises the promise afterwards has its resolver rejected at once
  with the same error.
\<close>

theorem abandoned_holder_rejects_waiters:
  assumes "\<not> resolved lock"
  shows "Destroy h lock =
           (TransferablePromiseStateStruct
              (Some (ExternalCopyOf (ExternalCopyError Error ''Promise was abandoned'')))
              [] True True,
            map (\<lambda>r. (isolate_holder r,
                   \<lparr>task_resolver = r,
                    task_value =
                      Some (ExternalCopyOf (ExternalCopyError Error ''Promise was abandoned'')),
                    task_did_throw = True\<rparr>))
              (waiting lock))
         \<and> map (\<lambda>t. Run (snd t)) (snd (Destroy h lock)) =
             map (\<lambda>r. Reject r
                    (Some (ExternalCopyOf (ExternalCopyError Error ''Promise was abandoned''))))
               (waiting lock)
         \<and> TransferIn r (fst (Destroy h lock)) =
             (fst (Destroy h lock),
              Some (Reject r
                (Some (ExternalCopyOf (ExternalCopyError Error ''Promise was abandoned'')))))"
  using assms by (simp add: Destroy_def Save_unresolved_ok TransferIn_def Run_def o_def)

theorem abandoned_holder_rejects_waiters_witness:
  "\<not> resolved (TransferablePromiseStateStruct None [\<lparr>isolate_holder = 1, resolver_id = 10\<rparr>, \<lparr>isolate_holder = 2, resolver_id = 20\<rparr>, \<lparr>isolate_holder = 1, resolver_id = 30\<rparr>] False False)
   \<and> Destroy (MakeHolder \<lparr>type = Type_None, fallback = Type_None, promise = True\<rparr>)
         (TransferablePromiseStateStruct None [\<lparr>isolate_holder = 1, resolver_id = 10\<rparr>, \<lparr>isolate_holder = 2, resolver_id = 20\<rparr>, \<lparr>isolate_holder = 1, resolver_id = 30\<rparr>] False False) =
       (TransferablePromiseStateStruct (Some (ExternalCopyOf (ExternalCopyError Error ''Promise was abandoned''))) [] True True,
        [(1, \<lparr>task_resolver = \<lparr>isolate_holder = 1, resolver_id = 10\<rparr>, task_value = Some (ExternalCopyOf (ExternalCopyError Error ''Promise was abandoned'')), task_did_throw = True\<rparr>),
         (2, \<lparr>task_resolver = \<lparr>isolate_holder = 2, resolver_id = 20\<rparr>, task_value = Some (ExternalCopyOf (ExternalCopyError Error ''Promise was abandoned'')), task_did_throw = True\<rparr>),
         (1, \<lparr>task_resolver = \<lparr>isolate_holder = 1, resolver_id = 30\<rparr>, task_value = Some (ExternalCopyOf (ExternalCopyError Error ''Promise was abandoned'')), task_did_throw = True\<rparr>)])
   \<and> TransferIn \<lparr>isolate_holder = 3, resolver_id = 40\<rparr>
         (TransferablePromiseStateStruct (Some (ExternalCopyOf (ExternalCopyError Error ''Promise was abandoned''))) [] True True) =
       (TransferablePromiseStateStruct (Some (ExternalCopyOf (ExternalCopyError Error ''Promise was abandoned''))) [] True True,
        Some (Reject \<lparr>isolate_holder = 3, resolver_id = 40\<rparr> (Some (ExternalCopyOf (ExternalCopyError Error ''Promise was abandoned'')))))"
  using abandoned_holder_rejects_waiters
    [of "TransferablePromiseStateStruct None [\<lparr>isolate_holder = 1, resolver_id = 10\<rparr>, \<lparr>isolate_holder = 2, resolver_id = 20\<rparr>, \<lparr>isolate_holder = 1, resolver_id = 30\<rparr>] False False"
        "MakeHolder \<lparr>type = Type_None, fallback = Type_None, promise = True\<rparr>"
        "\<lparr>isolate_holder = 3, resolver_id = 40\<rparr>"]
  by (simp add: Destroy_def Save_def RunCatchExternal_def TransferIn_def)

subsection \<open>Failures of the settling value\<close>

text \<open>
  C3. When the callback that produces the transferable of the settling value fails, on an
  unresolved struct, \<^verbatim>\<open>Save\<close> still returns: the failure is stored as the settled value, as
  an \<^verbatim>\<open>ExternalCopyError\<close>, the rejection flag is forced to true whatever the caller passed,
  and the bridge is settled as rejected with that error, for those who wait and for those
  who come later.
\<close>

theorem settlement_failure_captured:
  assumes "\<not> resolved lock" and "callback () = Inl e"
  shows "Save d callback lock =
           (TransferablePromiseStateStruct (Some (ExternalCopyOf (CopyCaught e))) [] True True,
            map (\<lambda>r. (isolate_holder r,
                   \<lparr>task_resolver = r, task_value = Some (ExternalCopyOf (CopyCaught e)),
                    task_did_throw = True\<rparr>))
              (waiting lock))
         \<and> (\<exists>kind message. CopyCaught e = ExternalCopyError kind message)
         \<and> map (\<lambda>t. Run (snd t)) (snd (Save d callback lock)) =
             map (\<lambda>r. Reject r (Some (ExternalCopyOf (CopyCaught e)))) (waiting lock)
         \<and> TransferIn r (fst (Save d callback lock)) =
             (fst (Save d callback lock), Some (Reject r (Some (ExternalCopyOf (CopyCaught e)))))"
proof -
  have "\<exists>kind message. CopyCaught e = ExternalCopyError kind message"
    by (cases e) simp_all
  then show ?thesis
    using assms by (simp add: Save_unresolved_fail TransferIn_def Run_def o_def)
qed

theorem settlement_failure_captured_witness:
  "\<not> resolved (TransferablePromiseStateStruct None [\<lparr>isolate_holder = 1, resolver_id = 10\<rparr>] False False)
   \<and> TransferOut (PlainObject 0) \<lparr>type = Type_None, fallback = Type_None, promise = False\<rparr> =
       Inl (RuntimeTypeError ''A non-transferable value was passed'')
   \<and> Resolved \<lparr>transfer_options = \<lparr>type = Type_None, fallback = Type_None, promise = False\<rparr>\<rparr>
         (PlainObject 0) (TransferablePromiseStateStruct None [\<lparr>isolate_holder = 1, resolver_id = 10\<rparr>] False False) =
       (TransferablePromiseStateStruct (Some (ExternalCopyOf (ExternalCopyError TypeError ''A non-transferable value was passed''))) [] True True,
        [(1, \<lparr>task_resolver = \<lparr>isolate_holder = 1, resolver_id = 10\<rparr>, task_value = Some (ExternalCopyOf (ExternalCopyError TypeError ''A non-transferable value was passed'')), task_did_throw = True\<rparr>)])"
  using settlement_failure_captured
    [of "TransferablePromiseStateStruct None [\<lparr>isolate_holder = 1, resolver_id = 10\<rparr>] False False"
        "\<lambda>_. TransferOut (PlainObject 0)
               \<lparr>type = Type_None, fallback = Type_None, promise = False\<rparr>"
        "RuntimeTypeError ''A non-transferable value was passed''" False "\<lparr>isolate_holder = 2, resolver_id = 20\<rparr>"]
  by (simp add: TransferWithType_def Save_def RunCatchExternal_def)

subsection \<open>Order of delivery\<close>

lemma TransferIn_all_unresolved:
  "\<not> resolved lock \<Longrightarrow>
     fold (\<lambda>r l. fst (TransferIn r l)) ws lock =
       TransferablePromiseStateStruct (val lock) (waiting lock @ ws) (did_throw lock) False"
proof (induction ws arbitrary: lock)
  case Nil
  then show ?case by (cases lock) simp
next
  case (Cons w ws)
  then show ?case by (simp add: TransferIn_def)
qed

text \<open>
  C7. When destinations materialise an unresolved promise with the resolvers \<open>ws\<close>, in
  that order, and the bridge then settles, \<^verbatim>\<open>Save\<close> empties the queue and schedules one
  task for each resolver, in the order of registration (behind those that waited before),
  each on the isolate of its resolver and each with the stored value and flag.
\<close>

theorem waiters_scheduled_in_registration_order:
  assumes "\<not> resolved lock"
  shows "let queued = fold (\<lambda>r l. fst (TransferIn r l)) ws lock;
             (lock1, tasks) = Save d callback queued
         in waiting queued = waiting lock @ ws
            \<and> waiting lock1 = []
            \<and> map (\<lambda>t. task_resolver (snd t)) tasks = waiting lock @ ws
            \<and> map fst tasks = map isolate_holder (waiting lock @ ws)
            \<and> map (\<lambda>t. (task_did_throw (snd t), task_value (snd t))) tasks =
                replicate (length (waiting lock @ ws)) (did_throw lock1, val lock1)"
proof -
  have q: "fold (\<lambda>r l. fst (TransferIn r l)) ws lock =
       TransferablePromiseStateStruct (val lock) (waiting lock @ ws) (did_throw lock) False"
    using assms by (rule TransferIn_all_unresolved)
  show ?thesis
    unfolding q
    by (cases "callback ()")
       (simp_all add: Save_unresolved_ok Save_unresolved_fail o_def map_replicate_const replicate_add)
qed

theorem waiters_scheduled_in_registration_order_witness:
  "\<not> resolved new_state
   \<and> Save False (\<lambda>_. Inr (ExternalCopyOf (Copied (Number 1))))
         (fold (\<lambda>r l. fst (TransferIn r l)) [\<lparr>isolate_holder = 1, resolver_id = 10\<rparr>, \<lparr>isolate_holder = 2, resolver_id = 20\<rparr>, \<lparr>isolate_holder = 1, resolver_id = 30\<rparr>] new_state) =
       (TransferablePromiseStateStruct (Some (ExternalCopyOf (Copied (Number 1)))) [] False True,
        [(1, \<lparr>task_resolver = \<lparr>isolate_holder = 1, resolver_id = 10\<rparr>, task_value = Some (ExternalCopyOf (Copied (Number 1))), task_did_throw = False\<rparr>),
         (2, \<lparr>task_resolver = \<lparr>isolate_holder = 2, resolver_id = 20\<rparr>, task_value = Some (ExternalCopyOf (Copied (Number 1))), task_did_throw = False\<rparr>),
         (1, \<lparr>task_resolver = \<lparr>isolate_holder = 1, resolver_id = 30\<rparr>, task_value = Some (ExternalCopyOf (Copied (Number 1))), task_did_throw = False\<rparr>)])"
  using waiters_scheduled_in_registration_order
    [of new_state "[\<lparr>isolate_holder = 1, resolver_id = 10\<rparr>, \<lparr>isolate_holder = 2, resolver_id = 20\<rparr>, \<lparr>isolate_holder = 1, resolver_id = 30\<rparr>]" False
        "\<lambda>_. Inr (ExternalCopyOf (Copied (Number 1)))"]
  by (simp add: new_state_def TransferIn_def Save_def RunCatchExternal_def)

subsection \<open>Dispatch\<close>

lemma OptionalTransferOut_no_promise:
  "\<not> promise options \<Longrightarrow> OptionalTransferOut v options \<noteq> Some (TransferablePromise s)"
  by (cases "type options"; cases v)
     (simp_all add: TransferWithType_def Handle_TransferOut_def split: Type.splits)

lemma Resolved_unresolved:
  "\<not> resolved lock \<Longrightarrow>
     Resolved h v lock =
       (case OptionalTransferOut v (transfer_options h) of
          Some t \<Rightarrow>
            (TransferablePromiseStateStruct (Some t) [] False True,
             map (\<lambda>r. (isolate_holder r,
                    \<lparr>task_resolver = r, task_value = Some t, task_did_throw = False\<rparr>))
               (waiting lock))
        | None \<Rightarrow>
            (TransferablePromiseStateStruct
               (Some (ExternalCopyOf
                  (ExternalCopyError TypeError ''A non-transferable value was passed'')))
               [] True True,
             map (\<lambda>r. (isolate_holder r,
                    \<lparr>task_resolver = r,
                     task_value = Some (ExternalCopyOf
                       (ExternalCopyError TypeError ''A non-transferable value was passed'')),
                     task_did_throw = True\<rparr>))
               (waiting lock)))"
  by (cases "OptionalTransferOut v (transfer_options h)")
     (simp_all add: Save_unresolved_ok Save_unresolved_fail del: OptionalTransferOut.simps)

lemma Rejected_unresolved:
  "\<not> resolved lock \<Longrightarrow>
     Rejected h v lock =
       (TransferablePromiseStateStruct
          (Some (ExternalCopyOf (CopyIfPrimitiveOrError v))) [] True True,
        map (\<lambda>r. (isolate_holder r,
               \<lparr>task_resolver = r,
                task_value = Some (ExternalCopyOf (CopyIfPrimitiveOrError v)),
                task_did_throw = True\<rparr>))
          (waiting lock))"
  by (simp add: Rejected_def Save_unresolved_ok)

lemma MakeHolder_options:
  "transfer_options (MakeHolder options) = options\<lparr>promise := False\<rparr>"
  by (simp add: MakeHolder_def)

lemma Resolved_value_not_promise:
  assumes "\<not> promise (transfer_options h)" and "\<not> resolved lock"
  shows "val (fst (Resolved h v lock)) \<noteq> Some (TransferablePromise inner)"
proof (cases "OptionalTransferOut v (transfer_options h)")
  case None
  then show ?thesis
    using assms(2) by (simp add: Resolved_unresolved del: OptionalTransferOut.simps Resolved.simps)
next
  case (Some t)
  with OptionalTransferOut_no_promise[OF assms(1), of v inner]
  have "t \<noteq> TransferablePromise inner" by auto
  with Some show ?thesis
    using assms(2) by (simp add: Resolved_unresolved del: OptionalTransferOut.simps Resolved.simps)
qed

lemma Rejected_value_not_promise:
  "\<not> resolved lock \<Longrightarrow> val (fst (Rejected h v lock)) \<noteq> Some (TransferablePromise inner)"
  by (simp add: Rejected_unresolved)

text \<open>
  C8. A value that wraps no \<^verbatim>\<open>TransferableHandle\<close> and that \<^verbatim>\<open>CopyIfPrimitive\<close> does not
  copy, with the kind unset, the fallback unset and no promise option, makes
  \<^verbatim>\<open>OptionalTransferOut\<close> return nothing and \<^verbatim>\<open>TransferOut\<close> throw the type error
  "A non-transferable value was passed". For every value and options \<^verbatim>\<open>TransferOut\<close>
  returns a transferable exactly when \<^verbatim>\<open>OptionalTransferOut\<close> produces it, and throws
  exactly when \<^verbatim>\<open>OptionalTransferOut\<close> produces nothing.
\<close>

theorem non_transferable_value_refused:
  "(type options = Type_None \<and> fallback options = Type_None \<and> \<not> promise options
      \<and> (IsObject v \<longrightarrow> Unwrap v = None) \<and> CopyIfPrimitive v = None
     \<longrightarrow> OptionalTransferOut v options = None
         \<and> TransferOut v options = Inl (RuntimeTypeError ''A non-transferable value was passed''))
   \<and> (TransferOut v options = Inr t \<longleftrightarrow> OptionalTransferOut v options = Some t)
   \<and> ((\<exists>e. TransferOut v options = Inl e) \<longleftrightarrow> OptionalTransferOut v options = None)"
proof -
  have a: "TransferOut v options = Inr t \<longleftrightarrow> OptionalTransferOut v options = Some t"
    by (cases "OptionalTransferOut v options") simp_all
  have b: "(\<exists>e. TransferOut v options = Inl e) \<longleftrightarrow> OptionalTransferOut v options = None"
    by (cases "OptionalTransferOut v options") simp_all
  have c: "OptionalTransferOut v options = None"
    if "type options = Type_None" "fallback options = Type_None" "\<not> promise options"
       "IsObject v \<longrightarrow> Unwrap v = None" "CopyIfPrimitive v = None"
    using that by (simp add: TransferWithType_def)
  from a b c show ?thesis by simp
qed

theorem non_transferable_value_refused_witness:
  "OptionalTransferOut (PlainObject 0)
     \<lparr>type = Type_None, fallback = Type_None, promise = False\<rparr> = None
   \<and> TransferOut (PlainObject 0) \<lparr>type = Type_None, fallback = Type_None, promise = False\<rparr> =
       Inl (RuntimeTypeError ''A non-transferable value was passed'')
   \<and> CopyIfPrimitive (PlainObject 0) = None \<and> Unwrap (PlainObject 0) = None"
  using non_transferable_value_refused
    [where v = "PlainObject 0"
       and options = "\<lparr>type = Type_None, fallback = Type_None, promise = False\<rparr>"
       and t = "HandleTransferable 0"]
  by simp

text \<open>
  C6. With the kind unset and no promise option the dispatch is, in this order: an object
  that wraps a \<^verbatim>\<open>TransferableHandle\<close> transfers itself, and that result is returned; any
  other value that \<^verbatim>\<open>CopyIfPrimitive\<close> copies is returned as that copy, whatever the
  fallback is: undefined, null, a boolean, a number, a string, or an error; every value
  left is transferred with the fallback kind in place of the kind.
\<close>

theorem unset_kind_dispatch_order:
  assumes "type options = Type_None" and "\<not> promise options"
  shows "OptionalTransferOut v options =
           (case (if IsObject v then Unwrap v else None) of
              Some h \<Rightarrow> Handle_TransferOut h
            | None \<Rightarrow>
                (case CopyIfPrimitive v of
                   Some c \<Rightarrow> Some (ExternalCopyOf c)
                 | None \<Rightarrow> TransferWithType v (fallback options)))
         \<and> OptionalTransferOut v options =
             (case v of
                TransferableHandleObject h \<Rightarrow> Some (HandleTransferable h)
              | Undefined \<Rightarrow> Some (ExternalCopyOf (Copied Undefined))
              | Null \<Rightarrow> Some (ExternalCopyOf (Copied Null))
              | Boolean b \<Rightarrow> Some (ExternalCopyOf (Copied (Boolean b)))
              | Number n \<Rightarrow> Some (ExternalCopyOf (Copied (Number n)))
              | String s \<Rightarrow> Some (ExternalCopyOf (Copied (String s)))
              | ErrorObject m \<Rightarrow> Some (ExternalCopyOf (ExternalCopyError Error m))
              | _ \<Rightarrow> TransferWithType v (fallback options))"
  using assms by (cases v) (simp_all add: Handle_TransferOut_def)

theorem unset_kind_dispatch_order_witness:
  "OptionalTransferOut (Number 42)
     \<lparr>type = Type_None, fallback = Type_Reference, promise = False\<rparr> =
     Some (ExternalCopyOf (Copied (Number 42)))
   \<and> OptionalTransferOut (ErrorObject ''boom'')
       \<lparr>type = Type_None, fallback = Type_Reference, promise = False\<rparr> =
       Some (ExternalCopyOf (ExternalCopyError Error ''boom''))
   \<and> OptionalTransferOut (TransferableHandleObject 5)
       \<lparr>type = Type_None, fallback = Type_Reference, promise = False\<rparr> =
       Some (HandleTransferable 5)
   \<and> OptionalTransferOut (PlainObject 0)
       \<lparr>type = Type_None, fallback = Type_Reference, promise = False\<rparr> =
       Some (ReferenceHandleTransferable (PlainObject 0))"
  using
    unset_kind_dispatch_order
      [where v = "Number 42"
         and options = "\<lparr>type = Type_None, fallback = Type_Reference, promise = False\<rparr>"]
    unset_kind_dispatch_order
      [where v = "ErrorObject ''boom''"
         and options = "\<lparr>type = Type_None, fallback = Type_Reference, promise = False\<rparr>"]
    unset_kind_dispatch_order
      [where v = "TransferableHandleObject 5"
         and options = "\<lparr>type = Type_None, fallback = Type_Reference, promise = False\<rparr>"]
    unset_kind_dispatch_order
      [where v = "PlainObject 0"
         and options = "\<lparr>type = Type_None, fallback = Type_Reference, promise = False\<rparr>"]
  by (simp add: TransferWithType_def)

subsection \<open>Transfer as a promise\<close>

lemma OptionalTransferOut_promise:
  "promise options \<Longrightarrow>
     OptionalTransferOut v options =
       Some (TransferablePromise
         (case v of
            PromiseObject state result \<Rightarrow>
              fst (Accept (MakeHolder options) state result new_state)
          | _ \<Rightarrow> fst (Resolved (MakeHolder options) v new_state)))"
  by (cases v) (simp_all del: Resolved.simps Accept.simps)

lemma Accept_cases:
  "Accept h state result lock =
     (case state of
        kPending \<Rightarrow> (lock, [], True)
      | kFulfilled \<Rightarrow> (fst (Resolved h result lock), snd (Resolved h result lock), False)
      | kRejected \<Rightarrow> (fst (Rejected h result lock), snd (Rejected h result lock), False))"
  by (cases state) (simp_all del: Resolved.simps split: prod.splits)

lemma Resolved_resolves: "resolved (fst (Resolved h v lock))"
  by (simp add: Save_cases split: sum.splits del: TransferOut.simps)

lemma Rejected_resolves: "resolved (fst (Rejected h v lock))"
  by (simp add: Rejected_def Save_cases)

lemma Resolved_value:
  "\<not> resolved lock \<Longrightarrow>
     val (fst (Resolved h v lock)) =
       (case TransferOut v (transfer_options h) of
          Inr t \<Rightarrow> Some t
        | Inl e \<Rightarrow> Some (ExternalCopyOf (CopyCaught e)))"
  by (simp add: Save_cases split: sum.splits del: TransferOut.simps)

text \<open>
  C4. With the promise option set, \<^verbatim>\<open>OptionalTransferOut\<close> returns a
  \<^verbatim>\<open>TransferablePromise\<close> for every value and every kind and fallback. For a promise the
  struct is what \<^verbatim>\<open>Accept\<close> of a new holder leaves: untouched, with the continuations
  installed, when the promise is pending, and resolved by \<^verbatim>\<open>Resolved\<close> or \<^verbatim>\<open>Rejected\<close>
  when it is settled. For any other value the struct is resolved at once, with what
  \<^verbatim>\<open>TransferOut\<close> makes of the value under the options with \<^verbatim>\<open>promise\<close> set to false
  (or the error it raised). The holder's options have \<^verbatim>\<open>promise\<close> false, so the value
  stored in the struct, at construction or when a continuation settles it later, is never
  a \<^verbatim>\<open>TransferablePromise\<close>.
\<close>

theorem promise_option_wraps:
  assumes "promise options"
  shows "(\<exists>st. OptionalTransferOut v options = Some (TransferablePromise st)
           \<and> (\<forall>inner. val st \<noteq> Some (TransferablePromise inner))
           \<and> (case v of
                 PromiseObject state result \<Rightarrow>
                   st = fst (Accept (MakeHolder options) state result new_state)
                   \<and> (if state = kPending then
                         st = new_state
                         \<and> Accept (MakeHolder options) state result new_state = (new_state, [], True)
                       else if state = kFulfilled then
                         st = fst (Resolved (MakeHolder options) result new_state) \<and> resolved st
                       else
                         st = fst (Rejected (MakeHolder options) result new_state)
                         \<and> resolved st \<and> did_throw st)
               | _ \<Rightarrow>
                   st = fst (Resolved (MakeHolder options) v new_state)
                   \<and> resolved st
                   \<and> val st =
                       (case TransferOut v (options\<lparr>promise := False\<rparr>) of
                          Inr t \<Rightarrow> Some t
                        | Inl e \<Rightarrow> Some (ExternalCopyOf (CopyCaught e)))))
         \<and> transfer_options (MakeHolder options) = options\<lparr>promise := False\<rparr>
         \<and> (\<not> resolved lock \<longrightarrow>
               val (fst (Resolved (MakeHolder options) v' lock)) \<noteq> Some (TransferablePromise inner)
               \<and> val (fst (Rejected (MakeHolder options) v' lock))
                   \<noteq> Some (TransferablePromise inner))"
proof -
  let ?h = "MakeHolder options"
  have np: "\<not> promise (transfer_options ?h)" by (simp add: MakeHolder_def)
  have un: "\<not> resolved new_state" by (simp add: new_state_def)
  have later: "\<not> resolved lock \<longrightarrow>
               val (fst (Resolved ?h v' lock)) \<noteq> Some (TransferablePromise inner)
               \<and> val (fst (Rejected ?h v' lock)) \<noteq> Some (TransferablePromise inner)"
    using Resolved_value_not_promise[OF np] Rejected_value_not_promise by blast
  define st where "st =
     (case v of
        PromiseObject state result \<Rightarrow> fst (Accept ?h state result new_state)
      | _ \<Rightarrow> fst (Resolved ?h v new_state))"
  have out: "OptionalTransferOut v options = Some (TransferablePromise st)"
    unfolding st_def using assms by (rule OptionalTransferOut_promise)
  have shape: "case v of
                 PromiseObject state result \<Rightarrow>
                   st = fst (Accept ?h state result new_state)
                   \<and> (if state = kPending then
                         st = new_state
                         \<and> Accept ?h state result new_state = (new_state, [], True)
                       else if state = kFulfilled then
                         st = fst (Resolved ?h result new_state) \<and> resolved st
                       else
                         st = fst (Rejected ?h result new_state)
                         \<and> resolved st \<and> did_throw st)
               | _ \<Rightarrow>
                   st = fst (Resolved ?h v new_state)
                   \<and> resolved st
                   \<and> val st =
                       (case TransferOut v (options\<lparr>promise := False\<rparr>) of
                          Inr t \<Rightarrow> Some t
                        | Inl e \<Rightarrow> Some (ExternalCopyOf (CopyCaught e)))"
  proof (cases v)
    case (PromiseObject state result)
    show ?thesis
      unfolding st_def PromiseObject
      by (cases state)
         (simp_all add: Accept_cases Resolved_resolves Rejected_resolves
            Rejected_unresolved[OF un]
            del: Accept.simps Resolved.simps)
  qed (simp_all add: st_def Resolved_resolves Resolved_value[OF un] MakeHolder_options
        del: Resolved.simps TransferOut.simps)
  have inner: "\<forall>inner. val st \<noteq> Some (TransferablePromise inner)"
  proof (cases v)
    case (PromiseObject state result)
    show ?thesis
      unfolding st_def PromiseObject
      using Resolved_value_not_promise[OF np un] Rejected_value_not_promise[OF un]
      by (cases state)
         (simp_all add: Accept_cases new_state_sel del: Accept.simps Resolved.simps)
  qed (use Resolved_value_not_promise[OF np un] in
        \<open>simp_all add: st_def del: Resolved.simps\<close>)
  from out shape inner later show ?thesis
    by (simp add: MakeHolder_options del: OptionalTransferOut.simps Resolved.simps Accept.simps
          TransferOut.simps)
qed

theorem promise_option_wraps_witness:
  "promise \<lparr>type = Type_None, fallback = Type_None, promise = True\<rparr>
   \<and> OptionalTransferOut (Number 7) \<lparr>type = Type_None, fallback = Type_None, promise = True\<rparr> =
       Some (TransferablePromise
         (TransferablePromiseStateStruct (Some (ExternalCopyOf (Copied (Number 7)))) [] False True))
   \<and> OptionalTransferOut (PromiseObject kPending Undefined)
       \<lparr>type = Type_None, fallback = Type_None, promise = True\<rparr> =
       Some (TransferablePromise new_state)
   \<and> transfer_options (MakeHolder \<lparr>type = Type_None, fallback = Type_None, promise = True\<rparr>) =
       \<lparr>type = Type_None, fallback = Type_None, promise = False\<rparr>"
  using
    promise_option_wraps
      [where v = "Number 7"
         and options = "\<lparr>type = Type_None, fallback = Type_None, promise = True\<rparr>"
         and lock = new_state and v' = "Number 7" and inner = new_state]
    promise_option_wraps
      [where v = "PromiseObject kPending Undefined"
         and options = "\<lparr>type = Type_None, fallback = Type_None, promise = True\<rparr>"
         and lock = new_state and v' = "Number 7" and inner = new_state]
  by (simp add: MakeHolder_def new_state_def Save_def RunCatchExternal_def)

text \<open>
  C5, as amended. For a transfer with the promise option set: when the promise is
  fulfilled, at the transfer or later, the stored value is what \<^verbatim>\<open>OptionalTransferOut\<close>
  makes of the result under the caller's options with \<^verbatim>\<open>promise\<close> false (so an explicit
  kind decides it), or the type error when it makes nothing; when the promise is rejected,
  the stored value is the \<^verbatim>\<open>CopyIfPrimitiveOrError\<close> copy of the reason, whatever the
  options.
\<close>

theorem settled_value_fulfilled_by_options_rejected_by_copy:
  assumes "promise options"
  shows "OptionalTransferOut (PromiseObject kFulfilled result) options =
           Some (TransferablePromise
             (case OptionalTransferOut result (options\<lparr>promise := False\<rparr>) of
                Some t \<Rightarrow> TransferablePromiseStateStruct (Some t) [] False True
              | None \<Rightarrow>
                  TransferablePromiseStateStruct
                    (Some (ExternalCopyOf
                       (ExternalCopyError TypeError ''A non-transferable value was passed'')))
                    [] True True))
         \<and> OptionalTransferOut (PromiseObject kRejected result) options =
             Some (TransferablePromise
               (TransferablePromiseStateStruct
                  (Some (ExternalCopyOf (CopyIfPrimitiveOrError result))) [] True True))
         \<and> (\<not> resolved lock \<longrightarrow>
               fst (Resolved (MakeHolder options) v lock) =
                 (case OptionalTransferOut v (options\<lparr>promise := False\<rparr>) of
                    Some t \<Rightarrow> TransferablePromiseStateStruct (Some t) [] False True
                  | None \<Rightarrow>
                      TransferablePromiseStateStruct
                        (Some (ExternalCopyOf
                           (ExternalCopyError TypeError ''A non-transferable value was passed'')))
                        [] True True)
               \<and> fst (Rejected (MakeHolder options) v lock) =
                   TransferablePromiseStateStruct
                     (Some (ExternalCopyOf (CopyIfPrimitiveOrError v))) [] True True)
         \<and> (type options \<noteq> Type_None \<longrightarrow>
               OptionalTransferOut v (options\<lparr>promise := False\<rparr>) =
                 TransferWithType v (type options))"
proof -
  have un: "\<not> resolved new_state" by (simp add: new_state_def)
  have a: "OptionalTransferOut (PromiseObject kFulfilled result) options =
           Some (TransferablePromise (fst (Resolved (MakeHolder options) result new_state)))"
    using OptionalTransferOut_promise[OF assms, of "PromiseObject kFulfilled result"]
    by (simp add: Accept_cases del: OptionalTransferOut.simps Accept.simps Resolved.simps)
  have b: "OptionalTransferOut (PromiseObject kRejected result) options =
           Some (TransferablePromise (fst (Rejected (MakeHolder options) result new_state)))"
    using OptionalTransferOut_promise[OF assms, of "PromiseObject kRejected result"]
    by (simp add: Accept_cases del: OptionalTransferOut.simps Accept.simps Resolved.simps)
  have r: "fst (Resolved (MakeHolder options) w l) =
       (case OptionalTransferOut w (options\<lparr>promise := False\<rparr>) of
          Some t \<Rightarrow> TransferablePromiseStateStruct (Some t) [] False True
        | None \<Rightarrow>
            TransferablePromiseStateStruct
              (Some (ExternalCopyOf
                 (ExternalCopyError TypeError ''A non-transferable value was passed'')))
              [] True True)" if "\<not> resolved l" for w l
    using that
    by (simp add: Resolved_unresolved MakeHolder_options split: option.splits
          del: OptionalTransferOut.simps Resolved.simps)
  have j: "fst (Rejected (MakeHolder options) w l) =
       TransferablePromiseStateStruct (Some (ExternalCopyOf (CopyIfPrimitiveOrError w))) [] True True"
    if "\<not> resolved l" for w l
    using that by (simp add: Rejected_unresolved)
  have k: "type options \<noteq> Type_None \<longrightarrow>
     OptionalTransferOut v (options\<lparr>promise := False\<rparr>) = TransferWithType v (type options)"
    by (cases "type options") simp_all
  show ?thesis
    unfolding a b using r[OF un] j[OF un] r j k
    by (simp del: OptionalTransferOut.simps Resolved.simps)
qed

theorem settled_value_fulfilled_by_options_rejected_by_copy_witness:
  "promise \<lparr>type = Type_ExternalCopy, fallback = Type_None, promise = True\<rparr>
   \<and> OptionalTransferOut (PromiseObject kFulfilled (PlainObject 3))
       \<lparr>type = Type_ExternalCopy, fallback = Type_None, promise = True\<rparr> =
       Some (TransferablePromise
         (TransferablePromiseStateStruct
            (Some (ExternalCopyTransferable (Copied (PlainObject 3)))) [] False True))
   \<and> OptionalTransferOut (PromiseObject kRejected (ErrorObject ''boom''))
       \<lparr>type = Type_ExternalCopy, fallback = Type_None, promise = True\<rparr> =
       Some (TransferablePromise
         (TransferablePromiseStateStruct
            (Some (ExternalCopyOf (ExternalCopyError Error ''boom''))) [] True True))"
  using
    settled_value_fulfilled_by_options_rejected_by_copy
      [where options = "\<lparr>type = Type_ExternalCopy, fallback = Type_None, promise = True\<rparr>"
         and result = "PlainObject 3" and lock = new_state and v = "PlainObject 3"]
    settled_value_fulfilled_by_options_rejected_by_copy
      [where options = "\<lparr>type = Type_ExternalCopy, fallback = Type_None, promise = True\<rparr>"
         and result = "ErrorObject ''boom''" and lock = new_state and v = "PlainObject 3"]
  by (simp add: MakeHolder_def new_state_def Save_def RunCatchExternal_def Rejected_def
      TransferWithType_def Copy_def CopyIfPrimitiveOrError_def)

text \<open>
  C5, as stated, fails when the promise is rejected: with the kind \<^verbatim>\<open>Reference\<close> the
  stored reason is a copy, not the reference that \<^verbatim>\<open>TransferOut\<close> under these options
  makes of the same value (and that is stored when the promise is fulfilled);
  \<^verbatim>\<open>Rejected\<close> does the same for any two holders.
\<close>

theorem rejection_ignores_kind_counterexample:
  "OptionalTransferOut (PromiseObject kRejected (Number 1))
     \<lparr>type = Type_Reference, fallback = Type_None, promise = True\<rparr> =
     Some (TransferablePromise
       (TransferablePromiseStateStruct (Some (ExternalCopyOf (Copied (Number 1)))) [] True True))
   \<and> TransferOut (Number 1) \<lparr>type = Type_Reference, fallback = Type_None, promise = False\<rparr> =
       Inr (ReferenceHandleTransferable (Number 1))
   \<and> OptionalTransferOut (PromiseObject kFulfilled (Number 1))
       \<lparr>type = Type_Reference, fallback = Type_None, promise = True\<rparr> =
       Some (TransferablePromise
         (TransferablePromiseStateStruct (Some (ReferenceHandleTransferable (Number 1)))
            [] False True))
   \<and> Rejected (MakeHolder \<lparr>type = Type_Reference, fallback = Type_None, promise = True\<rparr>)
         (Number 1) new_state =
       Rejected (MakeHolder \<lparr>type = Type_Copy, fallback = Type_None, promise = True\<rparr>)
         (Number 1) new_state"
  by (simp add: MakeHolder_def new_state_def Rejected_def Save_def RunCatchExternal_def
      CopyIfPrimitiveOrError_def TransferWithType_def)

text \<open>
  C10. With the promise option set \<^verbatim>\<open>TransferOut\<close> returns a \<^verbatim>\<open>TransferablePromise\<close> for
  every value: it does not throw. When the value is no promise and has no transferable
  under the options with \<^verbatim>\<open>promise\<close> false, the promise returned is settled as rejected
  with the copy of the type error; when the value a pending promise is later fulfilled
  with has none, \<^verbatim>\<open>Resolved\<close> settles the struct the same way and schedules the rejection
  of every waiter; and a destination that materialises such a struct has its resolver
  rejected with that error.
\<close>

theorem promise_transfer_never_raises:
  assumes "promise options"
  shows "(\<exists>st. TransferOut v options = Inr (TransferablePromise st))
         \<and> (\<not> IsPromise v \<and> OptionalTransferOut v (options\<lparr>promise := False\<rparr>) = None \<longrightarrow>
              TransferOut v options =
                Inr (TransferablePromise
                  (TransferablePromiseStateStruct
                     (Some (ExternalCopyOf
                        (ExternalCopyError TypeError ''A non-transferable value was passed'')))
                     [] True True)))
         \<and> (\<not> resolved lock \<and> OptionalTransferOut v' (options\<lparr>promise := False\<rparr>) = None \<longrightarrow>
              Resolved (MakeHolder options) v' lock =
                (TransferablePromiseStateStruct
                   (Some (ExternalCopyOf
                      (ExternalCopyError TypeError ''A non-transferable value was passed'')))
                   [] True True,
                 map (\<lambda>r. (isolate_holder r,
                        \<lparr>task_resolver = r,
                         task_value = Some (ExternalCopyOf
                           (ExternalCopyError TypeError ''A non-transferable value was passed'')),
                         task_did_throw = True\<rparr>))
                   (waiting lock)))
         \<and> TransferIn r
              (TransferablePromiseStateStruct
                 (Some (ExternalCopyOf
                    (ExternalCopyError TypeError ''A non-transferable value was passed'')))
                 [] True True) =
             (TransferablePromiseStateStruct
                (Some (ExternalCopyOf
                   (ExternalCopyError TypeError ''A non-transferable value was passed'')))
                [] True True,
              Some (Reject r
                (Some (ExternalCopyOf
                   (ExternalCopyError TypeError ''A non-transferable value was passed'')))))"
proof -
  have un: "\<not> resolved new_state" by (simp add: new_state_def)
  have a: "\<exists>st. TransferOut v options = Inr (TransferablePromise st)"
    using OptionalTransferOut_promise[OF assms, of v]
    by (simp del: OptionalTransferOut.simps)
  have b: "TransferOut v options =
                Inr (TransferablePromise
                  (TransferablePromiseStateStruct
                     (Some (ExternalCopyOf
                        (ExternalCopyError TypeError ''A non-transferable value was passed'')))
                     [] True True))"
    if "\<not> IsPromise v" "OptionalTransferOut v (options\<lparr>promise := False\<rparr>) = None"
  proof -
    have "OptionalTransferOut v options =
        Some (TransferablePromise (fst (Resolved (MakeHolder options) v new_state)))"
      using OptionalTransferOut_promise[OF assms, of v] that(1)
      by (cases v) (simp_all del: OptionalTransferOut.simps Resolved.simps)
    then show ?thesis
      using that(2)
      by (simp add: Resolved_unresolved[OF un] MakeHolder_options
            del: OptionalTransferOut.simps Resolved.simps)
  qed
  have c: "Resolved (MakeHolder options) v' lock =
                (TransferablePromiseStateStruct
                   (Some (ExternalCopyOf
                      (ExternalCopyError TypeError ''A non-transferable value was passed'')))
                   [] True True,
                 map (\<lambda>r. (isolate_holder r,
                        \<lparr>task_resolver = r,
                         task_value = Some (ExternalCopyOf
                           (ExternalCopyError TypeError ''A non-transferable value was passed'')),
                         task_did_throw = True\<rparr>))
                   (waiting lock))"
    if "\<not> resolved lock" "OptionalTransferOut v' (options\<lparr>promise := False\<rparr>) = None"
    using that
    by (simp add: Resolved_unresolved MakeHolder_options
          del: OptionalTransferOut.simps Resolved.simps)
  from a b c show ?thesis
    by (simp add: TransferIn_def del: OptionalTransferOut.simps Resolved.simps TransferOut.simps)
qed

theorem promise_transfer_never_raises_witness:
  "promise \<lparr>type = Type_None, fallback = Type_None, promise = True\<rparr>
   \<and> \<not> IsPromise (PlainObject 0)
   \<and> TransferOut (PlainObject 0) \<lparr>type = Type_None, fallback = Type_None, promise = False\<rparr> =
       Inl (RuntimeTypeError ''A non-transferable value was passed'')
   \<and> TransferOut (PlainObject 0) \<lparr>type = Type_None, fallback = Type_None, promise = True\<rparr> =
       Inr (TransferablePromise (TransferablePromiseStateStruct (Some (ExternalCopyOf (ExternalCopyError TypeError ''A non-transferable value was passed''))) [] True True))
   \<and> Resolved (MakeHolder \<lparr>type = Type_None, fallback = Type_None, promise = True\<rparr>)
         (PlainObject 0)
         (TransferablePromiseStateStruct None [\<lparr>isolate_holder = 1, resolver_id = 10\<rparr>]
            False False) =
       (TransferablePromiseStateStruct (Some (ExternalCopyOf (ExternalCopyError TypeError ''A non-transferable value was passed''))) [] True True,
        [(1, \<lparr>task_resolver = \<lparr>isolate_holder = 1, resolver_id = 10\<rparr>,
              task_value = (Some (ExternalCopyOf (ExternalCopyError TypeError ''A non-transferable value was passed''))), task_did_throw = True\<rparr>)])"
  using promise_transfer_never_raises
    [where options = "\<lparr>type = Type_None, fallback = Type_None, promise = True\<rparr>"
       and v = "PlainObject 0" and v' = "PlainObject 0"
       and lock = "TransferablePromiseStateStruct None
                     [\<lparr>isolate_holder = 1, resolver_id = 10\<rparr>] False False"
       and r = "\<lparr>isolate_holder = 2, resolver_id = 20\<rparr>"]
  by (simp add: MakeHolder_def new_state_def Save_def RunCatchExternal_def TransferWithType_def)

subsection \<open>Option parsing\<close>

lemma ReadOption_flag: "ReadOption options name False = (options name = Some True)"
  by (cases "options name") (simp_all add: ReadOption_def)

text \<open>
  C9. Parsing an options bag succeeds exactly when at most one of the flags \<^verbatim>\<open>copy\<close>,
  \<^verbatim>\<open>externalCopy\<close>, \<^verbatim>\<open>reference\<close> is set: the kind is then the one of the flag that is
  set, or stays unset, the fallback is the one given, and \<^verbatim>\<open>promise\<close> is the promise flag.
  With two or more of them set it throws the type error. Whether it throws does not depend
  on the promise flag.
\<close>

theorem ParseOptions_one_kind:
  "(let copy = (options ''copy'' = Some True);
        externalCopy = (options ''externalCopy'' = Some True);
        reference = (options ''reference'' = Some True)
    in TransferableOptions options fb =
         (if length (filter id [copy, externalCopy, reference]) \<le> 1 then
            Inr \<lparr>type = (if copy then Type_Copy
                         else if externalCopy then Type_ExternalCopy
                         else if reference then Type_Reference
                         else Type_None),
                 fallback = fb,
                 promise = (options ''promise'' = Some True)\<rparr>
          else
            Inl (RuntimeTypeError
                   ''Only one of `copy`, `externalCopy`, or `reference` may be set'')))
   \<and> ((\<exists>e. TransferableOptions (options(''promise'' := p)) fb = Inl e)
        \<longleftrightarrow> (\<exists>e. TransferableOptions options fb = Inl e))"
  by (simp add: TransferableOptions_def ParseOptions_def ReadOption_flag Let_def)

theorem ParseOptions_one_kind_witness:
  "TransferableOptions [''externalCopy'' \<mapsto> True, ''promise'' \<mapsto> True] Type_Reference =
     Inr \<lparr>type = Type_ExternalCopy, fallback = Type_Reference, promise = True\<rparr>
   \<and> TransferableOptions [''copy'' \<mapsto> True, ''reference'' \<mapsto> True] Type_None =
       Inl (RuntimeTypeError ''Only one of `copy`, `externalCopy`, or `reference` may be set'')
   \<and> TransferableOptions Map.empty Type_Copy =
       Inr \<lparr>type = Type_None, fallback = Type_Copy, promise = False\<rparr>"
  using
    ParseOptions_one_kind
      [where options = "[''externalCopy'' \<mapsto> True, ''promise'' \<mapsto> True]"
         and fb = Type_Reference and p = None]
    ParseOptions_one_kind
      [where options = "[''copy'' \<mapsto> True, ''reference'' \<mapsto> True]"
         and fb = Type_None and p = None]
    ParseOptions_one_kind
      [where options = "Map.empty" and fb = Type_Copy and p = None]
  by (simp add: TransferableOptions_def ParseOptions_def ReadOption_def)

end
